theory Spec2Isabelle
  imports Complex_Main "HOL-Library.AList"
begin

section \<open>The SDK base client (sdk/base/base\_client.py)\<close>

subsection \<open>Values and exceptions\<close>

text \<open>
  Python values that travel through the keyword arguments of a request. A dict is an
  association list in insertion order; the keys of the dicts of this module are strings.
\<close>

datatype pyval =
    PNone
  | PBool bool
  | PInt int
  | PStr string
  | PList "pyval list"
  | PDict "(string \<times> pyval) list"

text \<open>
  The exceptions the module can raise or let through: \<open>R2RException\<close> with its status code
  and message, the \<open>StopAsyncIteration\<close> of an exhausted asynchronous generator, the
  \<open>AttributeError\<close> of calling \<open>update\<close> on a value that is no dict, the
  \<open>RuntimeError\<close> of the event loop, \<open>OSError\<close> with its subclasses, and any other
  exception of a wrapped operation, by name.
\<close>

datatype exn =
    R2RException int string
  | StopAsyncIteration
  | AttributeError
  | RuntimeError string
  | OSError string
  | OtherError string

subsection \<open>The client and its credentials\<close>

record client =
  base_url :: string
  prefix :: string
  timeout :: real
  access_token :: "string option"
  refresh_token :: "string option"
  user_id :: "string option"
  api_key :: "string option"

text \<open>
  \<open>__init__\<close>: the last argument is the value of \<open>os.getenv("R2R_API_KEY", None)\<close>.
\<close>

definition init :: "string \<Rightarrow> string \<Rightarrow> real \<Rightarrow> string option \<Rightarrow> client" where
  "init base_url_arg prefix_arg timeout_arg env_api_key =
     \<lparr> base_url = base_url_arg, prefix = prefix_arg, timeout = timeout_arg,
       access_token = None, refresh_token = None, user_id = None,
       api_key = env_api_key \<rparr>"

text \<open>
  The defaults of \<open>__init__\<close>.
\<close>

definition default_client :: "string option \<Rightarrow> client" where
  "default_client env_api_key = init ''https://api.cloud.sciphi.ai'' ''/v3'' 300 env_api_key"

text \<open>
  Python's truth value of an \<open>Optional[str]\<close>: \<open>None\<close> and the empty string are false.
\<close>

fun truthy :: "string option \<Rightarrow> bool" where
  "truthy None = False"
| "truthy (Some s) = (s \<noteq> [])"

text \<open>
  \<open>_get_auth_header\<close>. The tests are truth-value tests, in the order of the source.
\<close>

definition get_auth_header :: "client \<Rightarrow> exn + (string \<times> pyval) list" where
  "get_auth_header self =
     (if truthy (access_token self) \<and> truthy (api_key self) then
        Inl (R2RException 400 ''Cannot have both access token and api key.'')
      else if truthy (access_token self) then
        Inr [(''Authorization'', PStr (''Bearer '' @ the (access_token self)))]
      else if truthy (api_key self) then
        Inr [(''x-api-key'', PStr (the (api_key self)))]
      else Inr [])"

text \<open>
  \<open>_ensure_authenticated\<close>. The method assigns nothing; the client is returned so that
  the state after the call can be named.
\<close>

definition ensure_authenticated :: "client \<Rightarrow> exn + client" where
  "ensure_authenticated self =
     (if \<not> truthy (access_token self) then
        Inl (R2RException 401 ''Not authenticated. Please login first.'')
      else Inr self)"

text \<open>
  \<open>_get_full_url\<close>; \<open>None\<close> for the version is the call that leaves the default.
\<close>

definition get_full_url :: "client \<Rightarrow> string \<Rightarrow> string option \<Rightarrow> string" where
  "get_full_url self endpoint version =
     base_url self @ ''/'' @ (case version of None \<Rightarrow> ''v3'' | Some v \<Rightarrow> v) @ ''/'' @ endpoint"

subsection \<open>Request arguments\<close>

definition exempt_endpoints :: "string list" where
  "exempt_endpoints = [''register'', ''login'', ''verify_email'']"

text \<open>
  \<open>dict.update\<close> with another dict: each entry replaces the value of its key in place, or
  is appended.
\<close>

definition dict_update :: "(string \<times> pyval) list \<Rightarrow> (string \<times> pyval) list \<Rightarrow> (string \<times> pyval) list" where
  "dict_update d other = fold (\<lambda>(k, v). AList.update k v) other d"

text \<open>
  \<open>headers.update(self._get_auth_header())\<close>: the attribute \<open>update\<close> is looked up on the
  headers value first, so a value that is no dict raises before the header is built.
\<close>

definition update_headers :: "client \<Rightarrow> pyval \<Rightarrow> exn + pyval" where
  "update_headers self headers =
     (case headers of
        PDict d \<Rightarrow>
          (case get_auth_header self of
             Inl e \<Rightarrow> Inl e
           | Inr auth \<Rightarrow> Inr (PDict (dict_update d auth)))
      | _ \<Rightarrow> Inl AttributeError)"

text \<open>
  The test \<open>kwargs.get("params", None) == {} or kwargs.get("params", None) is None\<close>.
\<close>

definition params_empty :: "(string \<times> pyval) list \<Rightarrow> bool" where
  "params_empty kwargs =
     (map_of kwargs ''params'' = Some (PDict []) \<or>
      map_of kwargs ''params'' = None \<or> map_of kwargs ''params'' = Some PNone)"

text \<open>
  \<open>_prepare_request_args\<close>: the keyword arguments are an association list.
\<close>

definition prepare_request_args :: "client \<Rightarrow> string \<Rightarrow> (string \<times> pyval) list \<Rightarrow> exn + (string \<times> pyval) list" where
  "prepare_request_args self endpoint kwargs0 =
     (let headers = (case map_of kwargs0 ''headers'' of None \<Rightarrow> PDict [] | Some h \<Rightarrow> h);
          kwargs = AList.delete ''headers'' kwargs0;
          merged =
            (if (truthy (access_token self) \<or> truthy (api_key self))
                \<and> endpoint \<notin> set exempt_endpoints
             then update_headers self headers
             else Inr headers)
      in case merged of
           Inl e \<Rightarrow> Inl e
         | Inr headers' \<Rightarrow>
             Inr ((''headers'', headers') #
                  (if params_empty kwargs then AList.delete ''params'' kwargs else kwargs)))"

subsection \<open>The event loop\<close>

text \<open>
  Modelled from the library documentation: \<open>asyncio.get_event_loop\<close> and
  \<open>loop.run_until_complete\<close> belong to the Python standard library, not to the repository.
  What the module needs of them is kept: the loops that exist, by identity, each idle,
  running or closed; the loop associated with the calling context (the running loop of the
  thread, else the loop set for it); and whether the loop policy creates a loop on demand
  when there is none (the main thread before any \<open>set_event_loop\<close>, up to Python 3.13).
\<close>

datatype loop_status = Idle | Running | Closed

record loop_context =
  loops :: "nat \<Rightarrow> loop_status"
  current_loop :: "nat option"
  policy_creates :: bool
  next_loop :: nat


text \<open>
  \<open>asyncio.get_event_loop()\<close>: the loop of the context if there is one; else a new loop,
  which becomes the loop of the context, where the policy creates one; else
  \<open>RuntimeError\<close> (the message of the library ends with the name of the thread).
\<close>

definition get_event_loop :: "loop_context \<Rightarrow> (exn + nat) \<times> loop_context" where
  "get_event_loop ctx =
     (case current_loop ctx of
        Some l \<Rightarrow> (Inr l, ctx)
      | None \<Rightarrow>
          if policy_creates ctx then
            (Inr (next_loop ctx),
             ctx\<lparr> loops := (loops ctx)(next_loop ctx := Idle),
                  current_loop := Some (next_loop ctx),
                  next_loop := Suc (next_loop ctx) \<rparr>)
          else (Inl (RuntimeError ''There is no current event loop in thread''), ctx))"






subsection \<open>The synchronous adapter\<close>











definition closed_context :: loop_context where
  "closed_context = \<lparr> loops = (\<lambda>l. if l = 0 then Closed else Idle), current_loop = Some 0,
                      policy_creates = False, next_loop = 1 \<rparr>"





section \<open>Request authorizer: building the authentication header\<close>

text \<open>
  C1, as stated, fails: the tests of \<open>_get_auth_header\<close> are truth-value tests, and the
  empty string is false. A client whose access token is the empty string and whose API
  key is \<open>k\<close> has both credentials set, yet gets the \<open>x-api-key\<close> header and no error.
\<close>

theorem C1_counterexample:
  "access_token ((default_client (Some ''k''))\<lparr>access_token := Some ''''\<rparr>) \<noteq> None
   \<and> api_key ((default_client (Some ''k''))\<lparr>access_token := Some ''''\<rparr>) \<noteq> None
   \<and> get_auth_header ((default_client (Some ''k''))\<lparr>access_token := Some ''''\<rparr>)
       \<noteq> Inl (R2RException 400 ''Cannot have both access token and api key.'')
   \<and> get_auth_header ((default_client (Some ''k''))\<lparr>access_token := Some ''''\<rparr>)
       = Inr [(''x-api-key'', PStr ''k'')]"
  by (simp add: get_auth_header_def default_client_def init_def)

text \<open>
  C1, amended: for every credential state in which both the access token and the API key
  are set to non-empty strings, \<open>_get_auth_header\<close> fails with the \<open>R2RException\<close> of status
  400 and message "Cannot have both access token and api key."; it returns no header
  mapping.
\<close>

theorem C1_conflict_when_both_nonempty:
  assumes "access_token c = Some t" and "t \<noteq> []"
    and "api_key c = Some k" and "k \<noteq> []"
  shows "get_auth_header c
           = Inl (R2RException 400 ''Cannot have both access token and api key.'')
         \<and> (\<forall>h. get_auth_header c \<noteq> Inr h)"
  using assms by (simp add: get_auth_header_def)

theorem C1_conflict_when_both_nonempty_witness:
  "get_auth_header ((default_client (Some ''key''))\<lparr>access_token := Some ''tok''\<rparr>)
     = Inl (R2RException 400 ''Cannot have both access token and api key.'')"
  using C1_conflict_when_both_nonempty
          [of "(default_client (Some ''key''))\<lparr>access_token := Some ''tok''\<rparr>" "''tok''" "''key''"]
  by (simp add: default_client_def init_def)

text \<open>
  C2, as stated, fails for the same reason: with only the access token set, to the empty
  string, the result is the empty mapping and not the \<open>Authorization\<close> entry.
\<close>

theorem C2_counterexample:
  "access_token ((default_client None)\<lparr>access_token := Some ''''\<rparr>) = Some ''''
   \<and> api_key ((default_client None)\<lparr>access_token := Some ''''\<rparr>) = None
   \<and> get_auth_header ((default_client None)\<lparr>access_token := Some ''''\<rparr>)
       \<noteq> Inr [(''Authorization'', PStr (''Bearer '' @ ''''))]
   \<and> get_auth_header ((default_client None)\<lparr>access_token := Some ''''\<rparr>) = Inr []"
  by (simp add: get_auth_header_def default_client_def init_def)

text \<open>
  C2, amended: with only the access token set, to a non-empty string \<open>t\<close>, the result is
  exactly the one-entry mapping of \<open>Authorization\<close> to \<open>"Bearer " + t\<close>; with only the API
  key set, to a non-empty string \<open>k\<close>, it is exactly the one-entry mapping of \<open>x-api-key\<close>
  to \<open>k\<close>; with neither set it is the empty mapping.
\<close>

theorem C2_header_of_single_credential:
  "(access_token c = Some t \<and> t \<noteq> [] \<and> api_key c = None \<longrightarrow>
      get_auth_header c = Inr [(''Authorization'', PStr (''Bearer '' @ t))])
   \<and> (access_token c = None \<and> api_key c = Some k \<and> k \<noteq> [] \<longrightarrow>
      get_auth_header c = Inr [(''x-api-key'', PStr k)])
   \<and> (access_token c = None \<and> api_key c = None \<longrightarrow> get_auth_header c = Inr [])"
  by (simp add: get_auth_header_def)

theorem C2_header_of_single_credential_witness:
  "get_auth_header ((default_client None)\<lparr>access_token := Some ''tok''\<rparr>)
     = Inr [(''Authorization'', PStr ''Bearer tok'')]
   \<and> get_auth_header (default_client (Some ''key'')) = Inr [(''x-api-key'', PStr ''key'')]
   \<and> get_auth_header (default_client None) = Inr []"
  using C2_header_of_single_credential
          [of "(default_client None)\<lparr>access_token := Some ''tok''\<rparr>" "''tok''" "''key''"]
        C2_header_of_single_credential [of "default_client (Some ''key'')" "''tok''" "''key''"]
        C2_header_of_single_credential [of "default_client None" "''tok''" "''key''"]
  by (simp add: default_client_def init_def)

section \<open>Request authorizer: requiring a login\<close>

text \<open>
  C3, as stated, fails: with the access token set to the empty string the token is not
  absent, and \<open>_ensure_authenticated\<close> raises all the same.
\<close>

theorem C3_counterexample:
  "access_token ((default_client None)\<lparr>access_token := Some ''''\<rparr>) \<noteq> None
   \<and> ensure_authenticated ((default_client None)\<lparr>access_token := Some ''''\<rparr>)
       = Inl (R2RException 401 ''Not authenticated. Please login first.'')"
  by (simp add: ensure_authenticated_def default_client_def init_def)

text \<open>
  C3, amended: for every credential state, \<open>_ensure_authenticated\<close> fails with the
  \<open>R2RException\<close> of status 401 and message "Not authenticated. Please login first." if and
  only if the access token is absent or the empty string, whatever the API key is; it
  raises no other error; when the access token is a non-empty string it returns without
  error and the client is unchanged.
\<close>

theorem C3_unauthenticated_iff_no_token:
  "(ensure_authenticated c = Inl (R2RException 401 ''Not authenticated. Please login first.'')
      \<longleftrightarrow> access_token c = None \<or> access_token c = Some [])
   \<and> (\<forall>e. ensure_authenticated c = Inl e \<longrightarrow>
         e = R2RException 401 ''Not authenticated. Please login first.'')
   \<and> (\<forall>t. access_token c = Some t \<and> t \<noteq> [] \<longrightarrow> ensure_authenticated c = Inr c)"
  by (cases "access_token c") (auto simp add: ensure_authenticated_def)

theorem C3_unauthenticated_iff_no_token_witness:
  "ensure_authenticated (default_client (Some ''key''))
     = Inl (R2RException 401 ''Not authenticated. Please login first.'')
   \<and> ensure_authenticated ((default_client (Some ''key''))\<lparr>access_token := Some ''tok''\<rparr>)
     = Inr ((default_client (Some ''key''))\<lparr>access_token := Some ''tok''\<rparr>)"
  using C3_unauthenticated_iff_no_token [of "default_client (Some ''key'')", THEN conjunct1]
        C3_unauthenticated_iff_no_token
          [of "(default_client (Some ''key''))\<lparr>access_token := Some ''tok''\<rparr>",
           THEN conjunct2, THEN conjunct2]
  by (simp add: default_client_def init_def)

section \<open>Request authorizer: preparing the request arguments\<close>

lemma map_of_dict_update: "map_of (dict_update d other) = map_of d ++ map_of (rev other)"
  unfolding dict_update_def
proof (induction other arbitrary: d)
  case Nil
  then show ?case by simp
next
  case (Cons p other)
  obtain k v where p: "p = (k, v)" by (cases p)
  have "map_of (fold (\<lambda>(k, v). AList.update k v) (p # other) d)
        = map_of (AList.update k v d) ++ map_of (rev other)"
    by (simp add: p Cons.IH)
  also have "\<dots> = (map_of d)(k \<mapsto> v) ++ map_of (rev other)"
    by (simp only: update_conv')
  also have "\<dots> = map_of d ++ map_of (rev (p # other))"
    by (simp add: p fun_eq_iff map_add_def split: option.splits)
  finally show ?case .
qed

lemma get_auth_header_short: "get_auth_header c = Inr auth \<Longrightarrow> rev auth = auth"
  by (auto simp add: get_auth_header_def split: if_splits)

lemma params_empty_delete_headers:
  "params_empty (AList.delete ''headers'' kwargs) = params_empty kwargs"
  by (simp add: params_empty_def)

lemma prepare_request_args_exempt:
  assumes "endpoint \<in> set exempt_endpoints"
  shows "prepare_request_args c endpoint kwargs =
     Inr ((''headers'', case map_of kwargs ''headers'' of None \<Rightarrow> PDict [] | Some h \<Rightarrow> h) #
          (if params_empty kwargs then AList.delete ''params'' (AList.delete ''headers'' kwargs)
           else AList.delete ''headers'' kwargs))"
  using assms by (simp add: prepare_request_args_def Let_def params_empty_delete_headers)

lemma prepare_request_args_no_credential:
  assumes "\<not> truthy (access_token c)" and "\<not> truthy (api_key c)"
  shows "prepare_request_args c endpoint kwargs =
     Inr ((''headers'', case map_of kwargs ''headers'' of None \<Rightarrow> PDict [] | Some h \<Rightarrow> h) #
          (if params_empty kwargs then AList.delete ''params'' (AList.delete ''headers'' kwargs)
           else AList.delete ''headers'' kwargs))"
  using assms by (simp add: prepare_request_args_def Let_def params_empty_delete_headers)

lemma prepare_request_args_authorized:
  assumes "endpoint \<notin> set exempt_endpoints"
    and "truthy (access_token c) \<or> truthy (api_key c)"
  shows "prepare_request_args c endpoint kwargs =
     (case update_headers c (case map_of kwargs ''headers'' of None \<Rightarrow> PDict [] | Some h \<Rightarrow> h) of
        Inl e \<Rightarrow> Inl e
      | Inr headers' \<Rightarrow>
          Inr ((''headers'', headers') #
               (if params_empty kwargs then AList.delete ''params'' (AList.delete ''headers'' kwargs)
                else AList.delete ''headers'' kwargs)))"
  using assms by (simp add: prepare_request_args_def Let_def params_empty_delete_headers)

lemma get_auth_header_no_credential:
  "\<not> truthy (access_token c) \<Longrightarrow> \<not> truthy (api_key c) \<Longrightarrow> get_auth_header c = Inr []"
  by (simp add: get_auth_header_def)

text \<open>
  What the call does on an endpoint outside the exempt list when the caller's headers are
  a dict \<open>hdrs\<close> (the empty dict when none were given): the outcome of \<open>_get_auth_header\<close>
  decides it.
\<close>

lemma prepare_request_args_not_exempt:
  assumes ep: "endpoint \<notin> set exempt_endpoints"
    and hd: "map_of kwargs ''headers'' = None \<and> hdrs = [] \<or> map_of kwargs ''headers'' = Some (PDict hdrs)"
  shows "prepare_request_args c endpoint kwargs =
     (case get_auth_header c of
        Inl e \<Rightarrow> Inl e
      | Inr auth \<Rightarrow>
          Inr ((''headers'', PDict (dict_update hdrs auth)) #
               (if params_empty kwargs then AList.delete ''params'' (AList.delete ''headers'' kwargs)
                else AList.delete ''headers'' kwargs)))"
proof (cases "truthy (access_token c) \<or> truthy (api_key c)")
  case True
  have h: "(case map_of kwargs ''headers'' of None \<Rightarrow> PDict [] | Some h \<Rightarrow> h) = PDict hdrs"
    using hd by auto
  show ?thesis
    unfolding prepare_request_args_authorized [OF ep True] h
    by (simp add: update_headers_def split: sum.splits)
next
  case False
  then have f: "\<not> truthy (access_token c)" "\<not> truthy (api_key c)" by simp_all
  have h: "(case map_of kwargs ''headers'' of None \<Rightarrow> PDict [] | Some h \<Rightarrow> h) = PDict hdrs"
    using hd by auto
  show ?thesis
    unfolding prepare_request_args_no_credential [OF f] h get_auth_header_no_credential [OF f]
    by (simp add: dict_update_def)
qed

text \<open>
  C4: on the endpoints \<open>register\<close>, \<open>login\<close> and \<open>verify_email\<close> (exact strings) the call
  raises nothing, whatever the credentials are (both may be set), and the headers of the
  result are the headers the caller gave, the empty dict when none were given: nothing is
  attached. On every other endpoint string the exemption does not apply: with headers that
  are a dict, the call raises what \<open>_get_auth_header\<close> raises, and otherwise the headers of
  the result are the caller's headers updated with the authentication header.
\<close>

theorem C4_exempt_endpoints:
  "(endpoint \<in> {''register'', ''login'', ''verify_email''} \<longrightarrow>
      (\<exists>r. prepare_request_args c endpoint kwargs = Inr r
         \<and> map_of r ''headers''
             = Some (case map_of kwargs ''headers'' of None \<Rightarrow> PDict [] | Some h \<Rightarrow> h)))
   \<and> (endpoint \<notin> {''register'', ''login'', ''verify_email''}
        \<and> (map_of kwargs ''headers'' = None \<and> hdrs = []
             \<or> map_of kwargs ''headers'' = Some (PDict hdrs)) \<longrightarrow>
      (case get_auth_header c of
         Inl e \<Rightarrow> prepare_request_args c endpoint kwargs = Inl e
       | Inr auth \<Rightarrow>
           (\<exists>r. prepare_request_args c endpoint kwargs = Inr r
              \<and> map_of r ''headers'' = Some (PDict (dict_update hdrs auth)))))"
proof (intro conjI impI)
  assume "endpoint \<in> {''register'', ''login'', ''verify_email''}"
  then have "endpoint \<in> set exempt_endpoints" by (simp add: exempt_endpoints_def)
  from prepare_request_args_exempt [OF this]
  show "\<exists>r. prepare_request_args c endpoint kwargs = Inr r
         \<and> map_of r ''headers''
             = Some (case map_of kwargs ''headers'' of None \<Rightarrow> PDict [] | Some h \<Rightarrow> h)"
    by simp
next
  assume a: "endpoint \<notin> {''register'', ''login'', ''verify_email''}
        \<and> (map_of kwargs ''headers'' = None \<and> hdrs = []
             \<or> map_of kwargs ''headers'' = Some (PDict hdrs))"
  then have ep: "endpoint \<notin> set exempt_endpoints" by (simp add: exempt_endpoints_def)
  from a have hd: "map_of kwargs ''headers'' = None \<and> hdrs = []
             \<or> map_of kwargs ''headers'' = Some (PDict hdrs)" by simp
  show "case get_auth_header c of
         Inl e \<Rightarrow> prepare_request_args c endpoint kwargs = Inl e
       | Inr auth \<Rightarrow>
           (\<exists>r. prepare_request_args c endpoint kwargs = Inr r
              \<and> map_of r ''headers'' = Some (PDict (dict_update hdrs auth)))"
    unfolding prepare_request_args_not_exempt [OF ep hd]
    by (simp split: sum.splits)
qed

theorem C4_exempt_endpoints_witness:
  "prepare_request_args ((default_client (Some ''key''))\<lparr>access_token := Some ''tok''\<rparr>)
       ''login'' [] = Inr [(''headers'', PDict [])]
   \<and> prepare_request_args ((default_client (Some ''key''))\<lparr>access_token := Some ''tok''\<rparr>)
       ''Login'' [] = Inl (R2RException 400 ''Cannot have both access token and api key.'')
   \<and> prepare_request_args ((default_client None)\<lparr>access_token := Some ''tok''\<rparr>)
       ''Login'' [] = Inr [(''headers'', PDict [(''Authorization'', PStr ''Bearer tok'')])]"
proof -
  have 1: "prepare_request_args ((default_client (Some ''key''))\<lparr>access_token := Some ''tok''\<rparr>)
       ''login'' [] = Inr [(''headers'', PDict [])]"
    using C4_exempt_endpoints
      [where endpoint = "''login''" and kwargs = "[]" and hdrs = "[]"
         and c = "(default_client (Some ''key''))\<lparr>access_token := Some ''tok''\<rparr>",
       THEN conjunct1]
    by (auto simp add: prepare_request_args_def Let_def params_empty_def exempt_endpoints_def)
  have 2: "prepare_request_args ((default_client (Some ''key''))\<lparr>access_token := Some ''tok''\<rparr>)
       ''Login'' [] = Inl (R2RException 400 ''Cannot have both access token and api key.'')"
    using C4_exempt_endpoints
      [where endpoint = "''Login''" and kwargs = "[]" and hdrs = "[]"
         and c = "(default_client (Some ''key''))\<lparr>access_token := Some ''tok''\<rparr>",
       THEN conjunct2]
    by (simp add: get_auth_header_def default_client_def init_def)
  have 3: "prepare_request_args ((default_client None)\<lparr>access_token := Some ''tok''\<rparr>)
       ''Login'' [] = Inr [(''headers'', PDict [(''Authorization'', PStr ''Bearer tok'')])]"
    using C4_exempt_endpoints
      [where endpoint = "''Login''" and kwargs = "[]" and hdrs = "[]"
         and c = "(default_client None)\<lparr>access_token := Some ''tok''\<rparr>",
       THEN conjunct2]
    by (auto simp add: get_auth_header_def default_client_def init_def dict_update_def
          prepare_request_args_def Let_def params_empty_def exempt_endpoints_def update_headers_def)
  from 1 2 3 show ?thesis by simp
qed

text \<open>
  When the call raises: only on the authorization path, either because the caller's headers
  are no dict or because both credentials are non-empty.
\<close>

lemma prepare_request_args_raises:
  assumes "prepare_request_args c endpoint kwargs = Inl err"
  shows "endpoint \<notin> set exempt_endpoints
     \<and> (truthy (access_token c) \<or> truthy (api_key c))
     \<and> ((\<exists>d. map_of kwargs ''headers'' = Some (PDict d) \<or> map_of kwargs ''headers'' = None)
           \<and> truthy (access_token c) \<and> truthy (api_key c)
           \<and> err = R2RException 400 ''Cannot have both access token and api key.''
         \<or> (\<exists>h. map_of kwargs ''headers'' = Some h \<and> (\<forall>d. h \<noteq> PDict d))
           \<and> err = AttributeError)"
  using assms
  by (auto simp add: prepare_request_args_def Let_def update_headers_def get_auth_header_def
        split: if_splits option.splits pyval.splits sum.splits)

lemma prepare_request_args_no_params:
  assumes "params_empty kwargs" and "prepare_request_args c endpoint kwargs = Inr r"
  shows "map_of r ''params'' = None"
  using assms
  by (auto simp add: prepare_request_args_def Let_def params_empty_delete_headers delete_conv
        split: if_splits sum.splits)

text \<open>
  C5, as stated, fails in its instance: a client whose only credential is an API key set
  to the empty string gets no \<open>x-api-key\<close> entry on \<open>search\<close>, since the empty string is
  false in the test that guards the merge.
\<close>

theorem C5_counterexample:
  "api_key (default_client (Some '''')) \<noteq> None
   \<and> access_token (default_client (Some '''')) = None
   \<and> prepare_request_args (default_client (Some '''')) ''search'' [(''params'', PDict [])]
       = Inr [(''headers'', PDict [])]
   \<and> map_of [] ''x-api-key'' = (None :: pyval option)"
  by (simp add: prepare_request_args_def Let_def params_empty_def default_client_def init_def)

text \<open>
  C5, amended: for every endpoint, credential state and keyword arguments with a \<open>params\<close>
  entry that is the empty dict or \<open>None\<close>, a result of \<open>_prepare_request_args\<close> has no
  \<open>params\<close> key, and the call returns a result whenever the endpoint is exempt or, the
  headers being a dict or not given, the two credentials are not both non-empty. In
  particular, on \<open>search\<close> with only the API key set, to a non-empty string, and the
  arguments \<open>{"params": {}}\<close>, the result is the bundle whose only key is \<open>headers\<close>, with
  the single entry \<open>x-api-key\<close>.
\<close>

theorem C5_empty_params_dropped:
  "(map_of kwargs ''params'' = Some (PDict []) \<or> map_of kwargs ''params'' = Some PNone \<longrightarrow>
      (\<forall>r. prepare_request_args c endpoint kwargs = Inr r \<longrightarrow> map_of r ''params'' = None)
      \<and> (endpoint \<in> {''register'', ''login'', ''verify_email''}
           \<or> \<not> (truthy (access_token c) \<and> truthy (api_key c))
              \<and> (map_of kwargs ''headers'' = None
                  \<or> (\<exists>d. map_of kwargs ''headers'' = Some (PDict d))) \<longrightarrow>
          (\<exists>r. prepare_request_args c endpoint kwargs = Inr r)))
   \<and> (access_token c = None \<and> api_key c = Some k \<and> k \<noteq> [] \<longrightarrow>
        prepare_request_args c ''search'' [(''params'', PDict [])]
          = Inr [(''headers'', PDict [(''x-api-key'', PStr k)])])"
proof (intro conjI impI allI)
  fix r
  assume "map_of kwargs ''params'' = Some (PDict []) \<or> map_of kwargs ''params'' = Some PNone"
    and "prepare_request_args c endpoint kwargs = Inr r"
  then show "map_of r ''params'' = None"
    by (auto simp add: params_empty_def intro: prepare_request_args_no_params)
next
  assume "endpoint \<in> {''register'', ''login'', ''verify_email''}
           \<or> \<not> (truthy (access_token c) \<and> truthy (api_key c))
              \<and> (map_of kwargs ''headers'' = None
                  \<or> (\<exists>d. map_of kwargs ''headers'' = Some (PDict d)))"
  then have "\<forall>err. prepare_request_args c endpoint kwargs \<noteq> Inl err"
    using prepare_request_args_raises [of c endpoint kwargs]
    by (auto simp add: exempt_endpoints_def)
  then show "\<exists>r. prepare_request_args c endpoint kwargs = Inr r"
    by (cases "prepare_request_args c endpoint kwargs") auto
next
  assume "access_token c = None \<and> api_key c = Some k \<and> k \<noteq> []"
  then show "prepare_request_args c ''search'' [(''params'', PDict [])]
          = Inr [(''headers'', PDict [(''x-api-key'', PStr k)])]"
    by (simp add: prepare_request_args_def Let_def params_empty_def exempt_endpoints_def
          update_headers_def get_auth_header_def dict_update_def)
qed

theorem C5_empty_params_dropped_witness:
  "prepare_request_args (default_client (Some ''key'')) ''search'' [(''params'', PDict [])]
     = Inr [(''headers'', PDict [(''x-api-key'', PStr ''key'')])]
   \<and> (\<exists>r. prepare_request_args ((default_client None)\<lparr>access_token := Some ''tok''\<rparr>) ''search''
         [(''params'', PNone), (''json'', PInt 1)] = Inr r \<and> map_of r ''params'' = None)"
proof -
  have 1: "prepare_request_args (default_client (Some ''key'')) ''search'' [(''params'', PDict [])]
     = Inr [(''headers'', PDict [(''x-api-key'', PStr ''key'')])]"
    using C5_empty_params_dropped
      [where c = "default_client (Some ''key'')" and k = "''key''", THEN conjunct2]
    by (simp add: default_client_def init_def)
  have 2: "\<exists>r. prepare_request_args ((default_client None)\<lparr>access_token := Some ''tok''\<rparr>) ''search''
         [(''params'', PNone), (''json'', PInt 1)] = Inr r \<and> map_of r ''params'' = None"
    using C5_empty_params_dropped
      [where c = "(default_client None)\<lparr>access_token := Some ''tok''\<rparr>"
         and endpoint = "''search''"
         and kwargs = "[(''params'', PNone), (''json'', PInt 1)]", THEN conjunct1]
    by (auto simp add: default_client_def init_def)
  from 1 2 show ?thesis by simp
qed

text \<open>
  C6: on an endpoint outside the exempt list, with exactly one credential set and the
  caller's headers \<open>hdrs\<close> a dict (the empty dict when none were given),
  \<open>_get_auth_header\<close> returns a mapping \<open>auth\<close> and the call returns a bundle whose \<open>headers\<close>
  entry is a dict that maps like \<open>hdrs\<close> overridden by \<open>auth\<close>; every other key has the
  value it had in the arguments, except \<open>params\<close> when it was the empty dict or \<open>None\<close>,
  which is gone.
\<close>

theorem C6_headers_merged_rest_unchanged:
  assumes "endpoint \<notin> {''register'', ''login'', ''verify_email''}"
    and "(access_token c = None) \<noteq> (api_key c = None)"
    and "map_of kwargs ''headers'' = None \<and> hdrs = []
           \<or> map_of kwargs ''headers'' = Some (PDict hdrs)"
  shows "\<exists>auth merged r.
           get_auth_header c = Inr auth
         \<and> prepare_request_args c endpoint kwargs = Inr r
         \<and> map_of r ''headers'' = Some (PDict merged)
         \<and> map_of merged = map_of hdrs ++ map_of auth
         \<and> (\<forall>k. k \<noteq> ''headers'' \<longrightarrow>
               map_of r k =
                 (if k = ''params'' \<and> (map_of kwargs ''params'' = Some (PDict [])
                                        \<or> map_of kwargs ''params'' = Some PNone)
                  then None else map_of kwargs k))"
proof -
  from assms(2) have "\<not> (truthy (access_token c) \<and> truthy (api_key c))"
    by (cases "access_token c"; cases "api_key c") simp_all
  then have "\<exists>auth. get_auth_header c = Inr auth"
    by (simp add: get_auth_header_def)
  then obtain auth where auth: "get_auth_header c = Inr auth" ..
  let ?rest = "if params_empty kwargs then AList.delete ''params'' (AList.delete ''headers'' kwargs)
               else AList.delete ''headers'' kwargs"
  let ?r = "(''headers'', PDict (dict_update hdrs auth)) # ?rest"
  from assms(1) have ep: "endpoint \<notin> set exempt_endpoints"
    by (simp add: exempt_endpoints_def)
  have res: "prepare_request_args c endpoint kwargs = Inr ?r"
    unfolding prepare_request_args_not_exempt [OF ep assms(3)] auth by simp
  have merged: "map_of (dict_update hdrs auth) = map_of hdrs ++ map_of auth"
    by (simp add: map_of_dict_update get_auth_header_short [OF auth])
  have rest: "map_of ?r k =
                 (if k = ''params'' \<and> (map_of kwargs ''params'' = Some (PDict [])
                                        \<or> map_of kwargs ''params'' = Some PNone)
                  then None else map_of kwargs k)" if "k \<noteq> ''headers''" for k
    using that by (auto simp add: params_empty_def delete_conv)
  from auth res merged rest show ?thesis by auto
qed

theorem C6_headers_merged_rest_unchanged_witness:
  "\<exists>auth merged r.
     get_auth_header ((default_client None)\<lparr>access_token := Some ''tok''\<rparr>) = Inr auth
   \<and> prepare_request_args ((default_client None)\<lparr>access_token := Some ''tok''\<rparr>) ''search''
        [(''headers'', PDict [(''Authorization'', PStr ''mine''), (''Accept'', PStr ''*'')]),
         (''params'', PDict []), (''json'', PInt 1)] = Inr r
   \<and> map_of r ''headers'' = Some (PDict merged)
   \<and> map_of merged ''Authorization'' = Some (PStr ''Bearer tok'')
   \<and> map_of merged ''Accept'' = Some (PStr ''*'')
   \<and> map_of r ''json'' = Some (PInt 1)
   \<and> map_of r ''params'' = None"
proof -
  let ?c = "(default_client None)\<lparr>access_token := Some ''tok''\<rparr>"
  let ?hdrs = "[(''Authorization'', PStr ''mine''), (''Accept'', PStr ''*'')]"
  let ?kwargs = "[(''headers'', PDict ?hdrs), (''params'', PDict []), (''json'', PInt 1)]"
  have 1: "''search'' \<notin> {''register'', ''login'', ''verify_email''}" by simp
  have 2: "(access_token ?c = None) \<noteq> (api_key ?c = None)"
    by (simp add: default_client_def init_def)
  have 3: "map_of ?kwargs ''headers'' = None \<and> ?hdrs = []
           \<or> map_of ?kwargs ''headers'' = Some (PDict ?hdrs)" by simp
  from C6_headers_merged_rest_unchanged [OF 1 2 3]
  obtain auth merged r where
    a: "get_auth_header ?c = Inr auth" and
    r: "prepare_request_args ?c ''search'' ?kwargs = Inr r" and
    h: "map_of r ''headers'' = Some (PDict merged)" and
    m: "map_of merged = map_of ?hdrs ++ map_of auth" and
    k: "\<forall>k. k \<noteq> ''headers'' \<longrightarrow>
               map_of r k =
                 (if k = ''params'' \<and> (map_of ?kwargs ''params'' = Some (PDict [])
                                        \<or> map_of ?kwargs ''params'' = Some PNone)
                  then None else map_of ?kwargs k)"
    by blast
  from a have auth: "auth = [(''Authorization'', PStr ''Bearer tok'')]"
    by (simp add: get_auth_header_def default_client_def init_def)
  have "map_of merged ''Authorization'' = Some (PStr ''Bearer tok'')"
    and "map_of merged ''Accept'' = Some (PStr ''*'')"
    unfolding m auth by simp_all
  moreover from k have "map_of r ''json'' = Some (PInt 1)" and "map_of r ''params'' = None"
    by simp_all
  ultimately show ?thesis using a r h by blast
qed

section \<open>The full URL\<close>

text \<open>
  C10: the full URL is the base URL, a slash, the version (\<open>v3\<close> when the call gives none),
  a slash and the endpoint. The prefix given at construction takes no part in it: a client
  that differs only in its prefix computes the same URL.
\<close>

theorem C10_full_url_without_prefix:
  "get_full_url c endpoint (Some version) = base_url c @ ''/'' @ version @ ''/'' @ endpoint
   \<and> get_full_url c endpoint None = base_url c @ ''/'' @ ''v3'' @ ''/'' @ endpoint
   \<and> get_full_url (c\<lparr>prefix := p\<rparr>) endpoint v = get_full_url c endpoint v
   \<and> get_full_url (init b p t k) endpoint v = get_full_url (init b p' t k) endpoint v"
  by (simp add: get_full_url_def init_def)

section \<open>The synchronous adapter: single calls\<close>





lemma get_event_loop_current:
  "current_loop ctx = Some loop \<Longrightarrow> get_event_loop ctx = (Inr loop, ctx)"
  by (simp add: get_event_loop_def)

lemma get_event_loop_none:
  "current_loop ctx = None \<Longrightarrow> \<not> policy_creates ctx \<Longrightarrow>
     get_event_loop ctx = (Inl (RuntimeError ''There is no current event loop in thread''), ctx)"
  by (simp add: get_event_loop_def)




section \<open>The synchronous adapter: the calling context\<close>




section \<open>The synchronous adapter: streams\<close>











end
